theory Spec2Isabelle
  imports Complex_Main
begin

section \<open>JavaScript values and the object store\<close>

text \<open>
  The resource client of \<^verbatim>\<open>src/lib/customer.js\<close> handles untyped JavaScript values:
  the arguments of its four methods, the two arguments of the transport's callback, and
  the values with which a promise settles. Primitives are values; objects live in a store
  and are handled through references, so that two holders of one reference see each
  other's writes (\<^verbatim>\<open>update\<close> writes into the object its caller passed).
  Numbers are carried, never computed with: a finite number is a real, and the three
  special numbers are constructors of their own.
\<close>

type_synonym addr = nat

datatype jsval =
    JUndefined
  | JNull
  | JBool bool
  | JNum real
  | JNaN
  | JPosInfinity
  | JNegInfinity
  | JStr string
  | JRef addr

datatype objclass =
    PlainObject
  | ArrayObject
  | FunctionObject
  | DateObject
  | RegExpObject
  | ErrorObject

text \<open>
  An object has a class and its own properties, in insertion order, and it says which
  writes it accepts: whether it is extensible (a new property can be added; false after
  \<^verbatim>\<open>Object.preventExtensions\<close>, \<^verbatim>\<open>Object.seal\<close> and \<^verbatim>\<open>Object.freeze\<close>), and which
  of its properties are read-only (all of them after \<^verbatim>\<open>Object.freeze\<close>). An object
  literal is extensible and has no read-only property. The store is the list of all
  objects allocated so far; an address is an index into it, so a new object never takes
  the address of an old one.
\<close>

record hobj =
  cls :: objclass
  props :: "(string \<times> jsval) list"
  extensible :: bool
  readonly :: "string list"

type_synonym heap = "hobj list"

definition lookup :: "heap \<Rightarrow> addr \<Rightarrow> hobj option" where
  "lookup h a = (if a < length h then Some (h ! a) else None)"

definition alloc :: "heap \<Rightarrow> hobj \<Rightarrow> heap \<times> jsval" where
  "alloc h ob = (h @ [ob], JRef (length h))"

text \<open>The object literal \<^verbatim>\<open>{}\<close>.\<close>

definition empty_object :: hobj where
  "empty_object = \<lparr>cls = PlainObject, props = [], extensible = True, readonly = []\<rparr>"

text \<open>
  Modelled from the spec: the error classes of \<^verbatim>\<open>utils/errors\<close>, which
  \<^verbatim>\<open>customer.js\<close> imports and which are not among the sources. The spec: the
  InvalidRequestError kind "wraps the original transport error as \<^verbatim>\<open>detail\<close> and a fixed
  human-readable \<^verbatim>\<open>message\<close>", so \<^verbatim>\<open>FastbillInvalidRequestError\<close>, built from
  \<^verbatim>\<open>{message: ..., detail: ...}\<close>, keeps both; the TypeError kind is what the type check
  throws. The third error is the TypeError of the language itself, thrown by a property
  access on \<^verbatim>\<open>undefined\<close> or \<^verbatim>\<open>null\<close>.
\<close>

datatype fberror =
    FastbillTypeError
  | FastbillInvalidRequestError (message: string) (detail: jsval)
  | NativeTypeError

text \<open>JavaScript's ToBoolean, which \<^verbatim>\<open>||\<close> and \<^verbatim>\<open>if\<close> apply to their operand.\<close>

fun truthy :: "jsval \<Rightarrow> bool" where
  "truthy JUndefined = False"
| "truthy JNull = False"
| "truthy (JBool b) = b"
| "truthy (JNum x) = (x \<noteq> 0)"
| "truthy JNaN = False"
| "truthy JPosInfinity = True"
| "truthy JNegInfinity = True"
| "truthy (JStr s) = (s \<noteq> [])"
| "truthy (JRef a) = True"

text \<open>
  Writing a property: an existing key keeps its place and takes the new value, a new key
  goes to the end.
\<close>

fun put_prop :: "(string \<times> jsval) list \<Rightarrow> string \<Rightarrow> jsval \<Rightarrow> (string \<times> jsval) list" where
  "put_prop [] k v = [(k, v)]"
| "put_prop ((k', v') # ps) k v = (if k' = k then (k, v) # ps else (k', v') # put_prop ps k v)"

text \<open>
  The property read \<^verbatim>\<open>v.k\<close>. On \<^verbatim>\<open>undefined\<close> and \<^verbatim>\<open>null\<close> it throws; on an
  object it gives the own property, or \<^verbatim>\<open>undefined\<close>; on any other primitive it gives
  \<^verbatim>\<open>undefined\<close>. Prototypes are not modelled: none of the keys the client reads
  (\<^verbatim>\<open>filter\<close>, \<^verbatim>\<open>limit\<close>, \<^verbatim>\<open>offset\<close> of a plain object, \<^verbatim>\<open>CUSTOMERS\<close>,
  \<^verbatim>\<open>CUSTOMER_ID\<close>) is a property of \<^verbatim>\<open>Object.prototype\<close> or of a primitive's wrapper.
\<close>

fun get_prop :: "heap \<Rightarrow> jsval \<Rightarrow> string \<Rightarrow> fberror + jsval" where
  "get_prop h JUndefined k = Inl NativeTypeError"
| "get_prop h JNull k = Inl NativeTypeError"
| "get_prop h (JRef a) k =
     (case lookup h a of
        None \<Rightarrow> Inr JUndefined
      | Some ob \<Rightarrow> (case map_of (props ob) k of None \<Rightarrow> Inr JUndefined | Some v \<Rightarrow> Inr v))"
| "get_prop h v k = Inr JUndefined"

text \<open>
  Whether an object accepts the write of the key: a property it has must not be
  read-only, a property it has not must be one it can take.
\<close>

definition writable_key :: "hobj \<Rightarrow> string \<Rightarrow> bool" where
  "writable_key ob k =
     (if k \<in> set (map fst (props ob)) then k \<notin> set (readonly ob) else extensible ob)"

text \<open>
  The assignment \<^verbatim>\<open>v.k = x\<close>, in strict mode (the file starts with \<^verbatim>\<open>'use strict'\<close>):
  it changes the object in the store, at its address. It throws, and changes nothing, on
  anything that is not an object and on an object that does not accept the write (a
  frozen one, a sealed or non-extensible one without the key, a read-only key).
\<close>

fun set_prop :: "heap \<Rightarrow> jsval \<Rightarrow> string \<Rightarrow> jsval \<Rightarrow> fberror + heap" where
  "set_prop h (JRef a) k x =
     (case lookup h a of
        None \<Rightarrow> Inl NativeTypeError
      | Some ob \<Rightarrow>
          (if writable_key ob k
           then Inr (h[a := ob\<lparr>props := put_prop (props ob) k x\<rparr>])
           else Inl NativeTypeError))"
| "set_prop h v k x = Inl NativeTypeError"

section \<open>The collaborators of the resource client\<close>

text \<open>
  Modelled from the spec: \<^verbatim>\<open>typeOf\<close> of \<^verbatim>\<open>utils/type_handler\<close>, which is imported by
  \<^verbatim>\<open>customer.js\<close> and is not among the sources. The spec: "\<^verbatim>\<open>typeOf(value).mustBe(expectedKind)\<close>
  fails by throwing/raising a TypeError-kind error if \<^verbatim>\<open>value\<close>'s runtime kind does not
  match \<^verbatim>\<open>expectedKind\<close> (kinds used here: \<^verbatim>\<open>"object"\<close>, \<^verbatim>\<open>"number"\<close>)", where the kind
  \<^verbatim>\<open>"object"\<close> is that of a plain mapping and of nothing else. The runtime kind is
  the lower-case class name of the value; every number, NaN and the infinities too, has
  the kind \<^verbatim>\<open>"number"\<close>.
\<close>

fun class_name :: "objclass \<Rightarrow> string" where
  "class_name PlainObject = ''object''"
| "class_name ArrayObject = ''array''"
| "class_name FunctionObject = ''function''"
| "class_name DateObject = ''date''"
| "class_name RegExpObject = ''regexp''"
| "class_name ErrorObject = ''error''"

fun kindOf :: "heap \<Rightarrow> jsval \<Rightarrow> string" where
  "kindOf h JUndefined = ''undefined''"
| "kindOf h JNull = ''null''"
| "kindOf h (JBool b) = ''boolean''"
| "kindOf h (JNum x) = ''number''"
| "kindOf h JNaN = ''number''"
| "kindOf h JPosInfinity = ''number''"
| "kindOf h JNegInfinity = ''number''"
| "kindOf h (JStr s) = ''string''"
| "kindOf h (JRef a) = (case lookup h a of None \<Rightarrow> ''undefined'' | Some ob \<Rightarrow> class_name (cls ob))"

definition typeOf_mustBe :: "heap \<Rightarrow> jsval \<Rightarrow> string \<Rightarrow> fberror + unit" where
  "typeOf_mustBe h v expected = (if kindOf h v = expected then Inr () else Inl FastbillTypeError)"

text \<open>
  The request descriptor is the object literal a method hands to the transport: its
  fields in the order written. Nobody else holds it, so it is passed as a value; the
  values of its fields may be references.
\<close>

type_synonym descriptor = "(string \<times> jsval) list"

text \<open>
  The transport is \<^verbatim>\<open>this.$request\<close>, inherited from \<^verbatim>\<open>FastbillAPI\<close>
  (\<^verbatim>\<open>fastbill_api\<close>, not among the sources): it is a parameter of the model. It performs
  an HTTP call, so the callback it was given runs after the method has returned. A
  transport is described by what it does with the callback: for the descriptor and the
  store of the moment of the request, the invocations of the callback in order, each with
  the store of its moment (which holds the result set), the \<^verbatim>\<open>err\<close> argument and the
  \<^verbatim>\<open>resultset\<close> argument. A transport that throws at the request itself, or that runs
  the callback before it returns, is outside the model.
\<close>

type_synonym cbcall = "heap \<times> jsval \<times> jsval"

type_synonym transport = "descriptor \<Rightarrow> heap \<Rightarrow> cbcall list"

text \<open>
  Modelled from the spec: the constructor of the base class \<^verbatim>\<open>FastbillAPI\<close>, which is
  not among the sources. The spec: credentials are an "opaque pass-through, owned by the
  caller, supplied once at client construction". The client object has the credentials,
  the inherited \<^verbatim>\<open>$request\<close> and the \<^verbatim>\<open>$scope\<close> that the constructor of
  \<^verbatim>\<open>Customer\<close> sets.
\<close>

record customer =
  credentials :: jsval
  request :: transport
  scope :: string

definition Customer :: "transport \<Rightarrow> jsval \<Rightarrow> customer" where
  "Customer tr creds = \<lparr>credentials = creds, request = tr, scope = ''customer.''\<rparr>"

definition customerFactory :: "transport \<Rightarrow> jsval \<Rightarrow> customer" where
  "customerFactory tr creds = Customer tr creds"

section \<open>Promises\<close>

text \<open>
  A call of \<^verbatim>\<open>resolve\<close> or of \<^verbatim>\<open>reject\<close>. The promise takes the first one as its
  outcome and ignores the later ones; the record of a run keeps them all, so that
  "settles exactly once" can be said.
\<close>

datatype settle = Resolve jsval | Reject fberror

datatype pstate = Pending | Fulfilled jsval | Rejected fberror

text \<open>
  What one invocation of a method does: the store when the method returns its promise,
  the requests made to the transport (each with the store of that moment), the calls of
  \<^verbatim>\<open>resolve\<close> and \<^verbatim>\<open>reject\<close> in order, and the errors thrown inside the callback,
  which go to the transport's caller and not to the promise.
\<close>

record run =
  heap_ret :: heap
  sent :: "(descriptor \<times> heap) list"
  attempts :: "settle list"
  uncaught :: "fberror list"

fun settles :: "(fberror + settle) list \<Rightarrow> settle list" where
  "settles [] = []"
| "settles (Inr s # rs) = s # settles rs"
| "settles (Inl e # rs) = settles rs"

fun throws :: "(fberror + settle) list \<Rightarrow> fberror list" where
  "throws [] = []"
| "throws (Inr s # rs) = throws rs"
| "throws (Inl e # rs) = e # throws rs"

text \<open>
  \<^verbatim>\<open>new Promise((resolve, reject) => { ...; this.$request(d, onResult) })\<close>. The
  executor runs at once. Its statements before the request either throw, and then the
  constructor rejects the promise with what was thrown and no request is made, or they
  end with the descriptor \<open>d\<close>; the request is the executor's last statement. The
  callback \<open>onResult\<close> calls \<^verbatim>\<open>resolve\<close> or \<^verbatim>\<open>reject\<close>, or throws.
\<close>

definition new_Promise ::
  "transport \<Rightarrow> (heap \<Rightarrow> jsval \<Rightarrow> jsval \<Rightarrow> fberror + settle) \<Rightarrow> heap \<times> (fberror + descriptor) \<Rightarrow> run" where
  "new_Promise tr onResult ex =
     (case ex of
        (h1, Inl e) \<Rightarrow> \<lparr>heap_ret = h1, sent = [], attempts = [Reject e], uncaught = []\<rparr>
      | (h1, Inr d) \<Rightarrow>
          (let rs = map (\<lambda>(hc, err, resultset). onResult hc err resultset) (tr d h1)
           in \<lparr>heap_ret = h1, sent = [(d, h1)], attempts = settles rs, uncaught = throws rs\<rparr>))"

definition promise_state :: "run \<Rightarrow> pstate" where
  "promise_state r =
     (case attempts r of
        [] \<Rightarrow> Pending
      | Resolve v # _ \<Rightarrow> Fulfilled v
      | Reject e # _ \<Rightarrow> Rejected e)"

section \<open>The four methods of Customer\<close>

subsection \<open>get\<close>

definition get_onResult :: "heap \<Rightarrow> jsval \<Rightarrow> jsval \<Rightarrow> fberror + settle" where
  "get_onResult h err resultset =
     (if truthy err
      then Inr (Reject (FastbillInvalidRequestError ''Invalid Request to Fastbill.'' err))
      else (case get_prop h resultset ''CUSTOMERS'' of
              Inl e \<Rightarrow> Inl e
            | Inr v \<Rightarrow> Inr (Resolve v)))"

definition get_executor :: "customer \<Rightarrow> heap \<Rightarrow> jsval \<Rightarrow> heap \<times> (fberror + descriptor)" where
  "get_executor this h options =
     (let (h1, options1) = (if truthy options then (h, options) else alloc h empty_object)
      in case typeOf_mustBe h1 options1 ''object'' of
           Inl e \<Rightarrow> (h1, Inl e)
         | Inr _ \<Rightarrow>
            (case get_prop h1 options1 ''filter'' of
               Inl e \<Rightarrow> (h1, Inl e)
             | Inr f \<Rightarrow>
                (case get_prop h1 options1 ''limit'' of
                   Inl e \<Rightarrow> (h1, Inl e)
                 | Inr l \<Rightarrow>
                    (case get_prop h1 options1 ''offset'' of
                       Inl e \<Rightarrow> (h1, Inl e)
                     | Inr off \<Rightarrow>
                        (h1, Inr [(''service'', JStr (scope this @ ''get'')),
                                  (''filter'', f), (''limit'', l), (''offset'', off)])))))"

definition get :: "customer \<Rightarrow> heap \<Rightarrow> jsval \<Rightarrow> run" where
  "get this h options = new_Promise (request this) get_onResult (get_executor this h options)"

subsection \<open>create\<close>

definition create_onResult :: "heap \<Rightarrow> jsval \<Rightarrow> jsval \<Rightarrow> fberror + settle" where
  "create_onResult h err resultset =
     (if truthy err
      then Inr (Reject (FastbillInvalidRequestError ''Invalid Request to Fastbill.'' err))
      else (case get_prop h resultset ''CUSTOMER_ID'' of
              Inl e \<Rightarrow> Inl e
            | Inr v \<Rightarrow> Inr (Resolve v)))"

definition create_executor :: "customer \<Rightarrow> heap \<Rightarrow> jsval \<Rightarrow> heap \<times> (fberror + descriptor)" where
  "create_executor this h customer =
     (let (h1, customer1) = (if truthy customer then (h, customer) else alloc h empty_object)
      in case typeOf_mustBe h1 customer1 ''object'' of
           Inl e \<Rightarrow> (h1, Inl e)
         | Inr _ \<Rightarrow>
            (h1, Inr [(''service'', JStr (scope this @ ''create'')), (''data'', customer1)]))"

definition create :: "customer \<Rightarrow> heap \<Rightarrow> jsval \<Rightarrow> run" where
  "create this h customer =
     new_Promise (request this) create_onResult (create_executor this h customer)"

subsection \<open>update\<close>

definition update_onResult :: "heap \<Rightarrow> jsval \<Rightarrow> jsval \<Rightarrow> fberror + settle" where
  "update_onResult h err resultset =
     (if truthy err
      then Inr (Reject (FastbillInvalidRequestError ''Invalid Request to Fastbill.'' err))
      else Inr (Resolve (JBool True)))"

definition update_executor ::
  "customer \<Rightarrow> heap \<Rightarrow> jsval \<Rightarrow> jsval \<Rightarrow> heap \<times> (fberror + descriptor)" where
  "update_executor this h ident modification =
     (case typeOf_mustBe h ident ''number'' of
        Inl e \<Rightarrow> (h, Inl e)
      | Inr _ \<Rightarrow>
         (case typeOf_mustBe h modification ''object'' of
            Inl e \<Rightarrow> (h, Inl e)
          | Inr _ \<Rightarrow>
             (case set_prop h modification ''CUSTOMER_ID'' ident of
                Inl e \<Rightarrow> (h, Inl e)
              | Inr h1 \<Rightarrow>
                 (h1, Inr [(''service'', JStr (scope this @ ''update'')),
                           (''data'', modification)]))))"

definition update :: "customer \<Rightarrow> heap \<Rightarrow> jsval \<Rightarrow> jsval \<Rightarrow> run" where
  "update this h ident modification =
     new_Promise (request this) update_onResult (update_executor this h ident modification)"

subsection \<open>remove\<close>

definition remove_onResult :: "heap \<Rightarrow> jsval \<Rightarrow> jsval \<Rightarrow> fberror + settle" where
  "remove_onResult h err resultset =
     (if truthy err
      then Inr (Reject (FastbillInvalidRequestError ''Invalid Request to Fastbill.'' err))
      else Inr (Resolve (JBool True)))"

definition remove_executor :: "customer \<Rightarrow> heap \<Rightarrow> jsval \<Rightarrow> heap \<times> (fberror + descriptor)" where
  "remove_executor this h ident =
     (case typeOf_mustBe h ident ''number'' of
        Inl e \<Rightarrow> (h, Inl e)
      | Inr _ \<Rightarrow>
         (let (h1, d) = alloc h \<lparr>cls = PlainObject, props = [(''CUSTOMER_ID'', ident)], extensible = True, readonly = []\<rparr>
          in (h1, Inr [(''service'', JStr (scope this @ ''delete'')), (''data'', d)])))"

definition remove :: "customer \<Rightarrow> heap \<Rightarrow> jsval \<Rightarrow> run" where
  "remove this h ident =
     new_Promise (request this) remove_onResult (remove_executor this h ident)"

section \<open>The vocabulary of the claims\<close>

text \<open>A plain mapping: a reference to a live object of class \<^verbatim>\<open>Object\<close>.\<close>

fun is_plain :: "heap \<Rightarrow> jsval \<Rightarrow> bool" where
  "is_plain h (JRef a) = (case lookup h a of None \<Rightarrow> False | Some ob \<Rightarrow> cls ob = PlainObject)"
| "is_plain h v = False"

text \<open>
  The value is an object that accepts the assignment of the key: what
  \<^verbatim>\<open>modification.CUSTOMER_ID = id\<close> needs of the modification.
\<close>

fun accepts_write :: "heap \<Rightarrow> jsval \<Rightarrow> string \<Rightarrow> bool" where
  "accepts_write h (JRef a) k = (case lookup h a of None \<Rightarrow> False | Some ob \<Rightarrow> writable_key ob k)"
| "accepts_write h v k = False"

text \<open>A number, as \<^verbatim>\<open>typeof\<close> has it: the finite numbers, NaN and the two infinities.\<close>

fun is_number :: "jsval \<Rightarrow> bool" where
  "is_number (JNum x) = True"
| "is_number JNaN = True"
| "is_number JPosInfinity = True"
| "is_number JNegInfinity = True"
| "is_number v = False"

text \<open>
  The value of \<^verbatim>\<open>v.k\<close> where the read does not throw (on a plain mapping it never
  does).
\<close>

definition field_of :: "heap \<Rightarrow> jsval \<Rightarrow> string \<Rightarrow> jsval" where
  "field_of h v k = (case get_prop h v k of Inl e \<Rightarrow> JUndefined | Inr x \<Rightarrow> x)"

text \<open>
  A transport that invokes the callback once, with the given arguments, in the given
  store: what a test's fake transport does.
\<close>

definition reply_once :: "heap \<Rightarrow> jsval \<Rightarrow> jsval \<Rightarrow> transport" where
  "reply_once hc err resultset = (\<lambda>d h. [(hc, err, resultset)])"

text \<open>The transport invokes the callback exactly once, whatever the request.\<close>

definition invokes_once :: "transport \<Rightarrow> bool" where
  "invokes_once tr = (\<forall>d h. length (tr d h) = 1)"

text \<open>
  The arguments of every invocation of the callback are those of the transport's contract:
  an error (a value the callback's test \<^verbatim>\<open>if (err)\<close> takes as one), or else a result set
  that has properties (anything but \<^verbatim>\<open>undefined\<close> and \<^verbatim>\<open>null\<close>).
\<close>

definition meets_contract :: "transport \<Rightarrow> bool" where
  "meets_contract tr =
     (\<forall>d h hc err resultset. (hc, err, resultset) \<in> set (tr d h) \<longrightarrow>
        truthy err \<or> (resultset \<noteq> JUndefined \<and> resultset \<noteq> JNull))"

section \<open>Test doubles\<close>

text \<open>
  The stores and fake transports at which the theorems below are exercised. A transport
  that fails: it hands the callback an \<^verbatim>\<open>Error\<close> object and \<^verbatim>\<open>undefined\<close>.
\<close>

definition error_store :: heap where
  "error_store = [\<lparr>cls = ErrorObject, props = [(''message'', JStr ''ECONNRESET'')], extensible = True, readonly = []\<rparr>]"

definition failing_client :: customer where
  "failing_client = customerFactory (reply_once error_store (JRef 0) JUndefined) JUndefined"

text \<open>
  A transport that answers \<^verbatim>\<open>(null, {CUSTOMERS: [a, b]})\<close>: the result set is at
  address 0, the array at 1, the customers \<^verbatim>\<open>a\<close> and \<^verbatim>\<open>b\<close> at 2 and 3.
\<close>

definition customers_store :: heap where
  "customers_store =
     [\<lparr>cls = PlainObject, props = [(''CUSTOMERS'', JRef 1)], extensible = True, readonly = []\<rparr>,
      \<lparr>cls = ArrayObject, props = [(''0'', JRef 2), (''1'', JRef 3), (''length'', JNum 2)], extensible = True, readonly = []\<rparr>,
      \<lparr>cls = PlainObject, props = [(''CUSTOMER_ID'', JNum 1)], extensible = True, readonly = []\<rparr>,
      \<lparr>cls = PlainObject, props = [(''CUSTOMER_ID'', JNum 2)], extensible = True, readonly = []\<rparr>]"

definition listing_client :: customer where
  "listing_client = customerFactory (reply_once customers_store JNull (JRef 0)) JUndefined"

text \<open>A transport that answers \<^verbatim>\<open>(null, {CUSTOMER_ID: 42})\<close>.\<close>

definition created_store :: heap where
  "created_store = [\<lparr>cls = PlainObject, props = [(''CUSTOMER_ID'', JNum 42)], extensible = True, readonly = []\<rparr>]"

definition creating_client :: customer where
  "creating_client = customerFactory (reply_once created_store JNull (JRef 0)) JUndefined"

text \<open>
  A transport that invokes the callback once and reports neither an error nor a result
  set: \<^verbatim>\<open>(null, undefined)\<close>.
\<close>

definition silent_client :: customer where
  "silent_client = customerFactory (reply_once [] JNull JUndefined) JUndefined"

text \<open>The caller's store for \<^verbatim>\<open>update(5, {FIRST_NAME: "A"})\<close>: the modification is at address 0.\<close>

definition modification_store :: heap where
  "modification_store = [\<lparr>cls = PlainObject, props = [(''FIRST_NAME'', JStr ''A'')], extensible = True, readonly = []\<rparr>]"

text \<open>
  The caller's store for \<^verbatim>\<open>update(5, Object.freeze({FIRST_NAME: "A"}))\<close>: the frozen
  modification is at address 0.
\<close>

definition frozen_store :: heap where
  "frozen_store =
     [\<lparr>cls = PlainObject, props = [(''FIRST_NAME'', JStr ''A'')],
       extensible = False, readonly = [''FIRST_NAME'']\<rparr>]"

text \<open>The caller's store for \<^verbatim>\<open>get({filter: {CITY: "Kiel"}, limit: 10})\<close>: the options are at address 0.\<close>

definition options_store :: heap where
  "options_store =
     [\<lparr>cls = PlainObject, props = [(''filter'', JRef 1), (''limit'', JNum 10)], extensible = True, readonly = []\<rparr>,
      \<lparr>cls = PlainObject, props = [(''CITY'', JStr ''Kiel'')], extensible = True, readonly = []\<rparr>]"

text \<open>The caller's store for \<^verbatim>\<open>create({CUSTOMER_NUMBER: "x"})\<close>: the entity is at address 0.\<close>

definition entity_store :: heap where
  "entity_store = [\<lparr>cls = PlainObject, props = [(''CUSTOMER_NUMBER'', JStr ''x'')], extensible = True, readonly = []\<rparr>]"

section \<open>Facts about the collaborators\<close>

lemma kindOf_object_iff: "kindOf h v = ''object'' \<longleftrightarrow> is_plain h v"
proof (cases v)
  case (JRef a)
  show ?thesis
  proof (cases "lookup h a")
    case None
    with JRef show ?thesis by simp
  next
    case (Some ob)
    with JRef show ?thesis by (cases "cls ob") simp_all
  qed
qed simp_all

lemma kindOf_number_iff: "kindOf h v = ''number'' \<longleftrightarrow> is_number v"
proof (cases v)
  case (JRef a)
  show ?thesis
  proof (cases "lookup h a")
    case None
    with JRef show ?thesis by simp
  next
    case (Some ob)
    with JRef show ?thesis by (cases "cls ob") simp_all
  qed
qed simp_all

lemma mustBe_object: "typeOf_mustBe h v ''object'' = (if is_plain h v then Inr () else Inl FastbillTypeError)"
  using kindOf_object_iff [of h v] by (simp add: typeOf_mustBe_def)

lemma mustBe_number: "typeOf_mustBe h v ''number'' = (if is_number v then Inr () else Inl FastbillTypeError)"
  using kindOf_number_iff [of h v] by (simp add: typeOf_mustBe_def)

lemma is_plain_truthy: "is_plain h v \<Longrightarrow> truthy v"
  by (cases v) simp_all

lemma is_plain_ref: "is_plain h v \<Longrightarrow> \<exists>a ob. v = JRef a \<and> lookup h a = Some ob \<and> cls ob = PlainObject"
  by (cases v) (auto split: option.splits)

lemma is_plain_fresh: "is_plain (h @ [empty_object]) (JRef (length h))"
  by (simp add: lookup_def empty_object_def)

lemma get_prop_fresh: "get_prop (h @ [empty_object]) (JRef (length h)) k = Inr JUndefined"
  by (simp add: lookup_def empty_object_def)

section \<open>Facts about promises and the executors\<close>

lemma get_prop_field: "is_plain h v \<Longrightarrow> get_prop h v k = Inr (field_of h v k)"
  by (cases v) (auto simp: field_of_def split: option.splits)

lemma new_Promise_thrown:
  "new_Promise tr onR (h1, Inl e) = \<lparr>heap_ret = h1, sent = [], attempts = [Reject e], uncaught = []\<rparr>"
  by (simp add: new_Promise_def)

lemma new_Promise_sent: "sent (new_Promise tr onR (h1, Inr d)) = [(d, h1)]"
  by (simp add: new_Promise_def Let_def)

lemma new_Promise_heap: "heap_ret (new_Promise tr onR (h1, x)) = h1"
  by (cases x) (simp_all add: new_Promise_def Let_def)

lemma new_Promise_once:
  "tr d h1 = [(hc, err, rs)] \<Longrightarrow> attempts (new_Promise tr onR (h1, Inr d)) = settles [onR hc err rs]"
  by (simp add: new_Promise_def Let_def)

lemma get_executor_falsy:
  "\<not> truthy v \<Longrightarrow> get_executor c h v =
     (h @ [empty_object],
      Inr [(''service'', JStr (scope c @ ''get'')), (''filter'', JUndefined),
           (''limit'', JUndefined), (''offset'', JUndefined)])"
  by (simp add: get_executor_def alloc_def mustBe_object is_plain_fresh get_prop_fresh
           del: get_prop.simps is_plain.simps)

lemma get_executor_plain:
  "is_plain h v \<Longrightarrow> get_executor c h v =
     (h, Inr [(''service'', JStr (scope c @ ''get'')), (''filter'', field_of h v ''filter''),
              (''limit'', field_of h v ''limit''), (''offset'', field_of h v ''offset'')])"
  by (simp add: get_executor_def mustBe_object is_plain_truthy get_prop_field)

lemma get_executor_invalid:
  "truthy v \<Longrightarrow> \<not> is_plain h v \<Longrightarrow> get_executor c h v = (h, Inl FastbillTypeError)"
  by (simp add: get_executor_def mustBe_object)

lemma create_executor_falsy:
  "\<not> truthy v \<Longrightarrow> create_executor c h v =
     (h @ [empty_object], Inr [(''service'', JStr (scope c @ ''create'')), (''data'', JRef (length h))])"
  by (simp add: create_executor_def alloc_def mustBe_object is_plain_fresh del: is_plain.simps)

lemma create_executor_plain:
  "is_plain h v \<Longrightarrow> create_executor c h v =
     (h, Inr [(''service'', JStr (scope c @ ''create'')), (''data'', v)])"
  by (simp add: create_executor_def mustBe_object is_plain_truthy)

lemma create_executor_invalid:
  "truthy v \<Longrightarrow> \<not> is_plain h v \<Longrightarrow> create_executor c h v = (h, Inl FastbillTypeError)"
  by (simp add: create_executor_def mustBe_object)

lemma update_executor_refused:
  "is_number i \<Longrightarrow> lookup h a = Some ob \<Longrightarrow> cls ob = PlainObject \<Longrightarrow>
   \<not> writable_key ob ''CUSTOMER_ID'' \<Longrightarrow>
   update_executor c h i (JRef a) = (h, Inl NativeTypeError)"
  by (simp add: update_executor_def mustBe_object mustBe_number)

lemma update_executor_valid:
  "is_number i \<Longrightarrow> lookup h a = Some ob \<Longrightarrow> cls ob = PlainObject \<Longrightarrow>
   writable_key ob ''CUSTOMER_ID'' \<Longrightarrow>
   update_executor c h i (JRef a) =
     (h[a := ob\<lparr>props := put_prop (props ob) ''CUSTOMER_ID'' i\<rparr>],
      Inr [(''service'', JStr (scope c @ ''update'')), (''data'', JRef a)])"
  by (simp add: update_executor_def mustBe_object mustBe_number)

lemma update_executor_invalid:
  "\<not> is_number i \<or> \<not> is_plain h m \<Longrightarrow> update_executor c h i m = (h, Inl FastbillTypeError)"
  by (auto simp add: update_executor_def mustBe_object mustBe_number)

lemma remove_executor_valid:
  "is_number i \<Longrightarrow> remove_executor c h i =
     (h @ [\<lparr>cls = PlainObject, props = [(''CUSTOMER_ID'', i)], extensible = True, readonly = []\<rparr>],
      Inr [(''service'', JStr (scope c @ ''delete'')), (''data'', JRef (length h))])"
  by (simp add: remove_executor_def mustBe_number alloc_def)

lemma remove_executor_invalid:
  "\<not> is_number i \<Longrightarrow> remove_executor c h i = (h, Inl FastbillTypeError)"
  by (simp add: remove_executor_def mustBe_number)

lemma scope_factory: "scope (customerFactory tr creds) = ''customer.''"
  by (simp add: customerFactory_def Customer_def)

lemma request_factory: "request (customerFactory tr creds) = tr"
  by (simp add: customerFactory_def Customer_def)

lemma map_of_put_prop: "map_of (put_prop ps k v) = (map_of ps)(k \<mapsto> v)"
  by (induction ps) auto

lemma new_Promise_attempts:
  "attempts (new_Promise tr onR (h1, Inr d)) = settles (map (\<lambda>(hc, err, rs). onR hc err rs) (tr d h1))"
  by (simp add: new_Promise_def Let_def)

lemma new_Promise_sentD:
  "sent (new_Promise tr onR ex) = [(d, hs)] \<Longrightarrow> ex = (hs, Inr d)"
  by (cases ex) (auto simp: new_Promise_def Let_def split: sum.splits)

lemma new_Promise_answer:
  assumes "sent (new_Promise tr onR ex) = [(d, hs)]" and "tr d hs = [(hc, err, rs)]"
  shows "attempts (new_Promise tr onR ex) = settles [onR hc err rs]"
proof -
  from assms(1) have "ex = (hs, Inr d)" by (rule new_Promise_sentD)
  with assms(2) show ?thesis by (simp add: new_Promise_once)
qed

lemma onResult_error:
  assumes "truthy err"
  shows "get_onResult hc err rs = Inr (Reject (FastbillInvalidRequestError ''Invalid Request to Fastbill.'' err))"
    and "create_onResult hc err rs = Inr (Reject (FastbillInvalidRequestError ''Invalid Request to Fastbill.'' err))"
    and "update_onResult hc err rs = Inr (Reject (FastbillInvalidRequestError ''Invalid Request to Fastbill.'' err))"
    and "remove_onResult hc err rs = Inr (Reject (FastbillInvalidRequestError ''Invalid Request to Fastbill.'' err))"
  using assms by (simp_all add: get_onResult_def create_onResult_def update_onResult_def remove_onResult_def)

lemma get_prop_defined: "rs \<noteq> JUndefined \<Longrightarrow> rs \<noteq> JNull \<Longrightarrow> get_prop hc rs k = Inr (field_of hc rs k)"
  by (cases rs) (auto simp: field_of_def split: option.splits)

lemma lookup_update_same: "lookup h a = Some ob \<Longrightarrow> lookup (h[a := ob']) a = Some ob'"
  by (simp add: lookup_def split: if_splits)

lemma accepts_write_ref:
  "accepts_write h (JRef a) k \<Longrightarrow> lookup h a = Some ob \<Longrightarrow> writable_key ob k"
  by simp

lemma update_run:
  assumes "is_number ident" and "lookup h a = Some ob" and "cls ob = PlainObject"
    and "writable_key ob ''CUSTOMER_ID''"
  shows "update c h ident (JRef a) =
     new_Promise (request c) update_onResult
       (h[a := ob\<lparr>props := put_prop (props ob) ''CUSTOMER_ID'' ident\<rparr>],
        Inr [(''service'', JStr (scope c @ ''update'')), (''data'', JRef a)])"
  using assms by (simp add: update_def update_executor_valid)

lemma new_Promise_settles_once:
  assumes "invokes_once tr"
    and "\<And>d h hc err rs. (hc, err, rs) \<in> set (tr d h) \<Longrightarrow> \<exists>s. onR hc err rs = Inr s"
  shows "length (attempts (new_Promise tr onR ex)) = 1"
proof (cases ex)
  case (Pair h1 x)
  show ?thesis
  proof (cases x)
    case (Inl e)
    with Pair show ?thesis by (simp add: new_Promise_thrown)
  next
    case (Inr d)
    from assms(1) have "length (tr d h1) = 1" by (simp add: invokes_once_def)
    then obtain cb where cb: "tr d h1 = [cb]"
      by (cases "tr d h1") simp_all
    obtain hc err rs where t: "cb = (hc, err, rs)" by (cases cb)
    with cb have "(hc, err, rs) \<in> set (tr d h1)" by simp
    then obtain s where "onR hc err rs = Inr s" using assms(2) by blast
    with cb t Pair Inr show ?thesis by (simp add: new_Promise_once)
  qed
qed

lemma settles_subset: "s \<in> set (settles xs) \<Longrightarrow> Inr s \<in> set xs"
  by (induction xs rule: settles.induct) auto

lemma get_onResult_no_TypeError: "get_onResult hc err rs \<noteq> Inr (Reject FastbillTypeError)"
  by (simp add: get_onResult_def split: sum.splits)

lemma create_onResult_no_TypeError: "create_onResult hc err rs \<noteq> Inr (Reject FastbillTypeError)"
  by (simp add: create_onResult_def split: sum.splits)

lemma get_never_rejects_TypeError:
  "Reject FastbillTypeError \<notin> set (settles (map (\<lambda>(hc, err, rs). get_onResult hc err rs) cbs))"
  using get_onResult_no_TypeError by (fastforce dest: settles_subset)

lemma create_never_rejects_TypeError:
  "Reject FastbillTypeError \<notin> set (settles (map (\<lambda>(hc, err, rs). create_onResult hc err rs) cbs))"
  using create_onResult_no_TypeError by (fastforce dest: settles_subset)

section \<open>Facts about the test doubles\<close>

lemma failing_request: "request failing_client = reply_once error_store (JRef 0) JUndefined"
  by (simp add: failing_client_def request_factory)

lemma failing_scope: "scope failing_client = ''customer.''"
  by (simp add: failing_client_def scope_factory)

lemma listing_request: "request listing_client = reply_once customers_store JNull (JRef 0)"
  by (simp add: listing_client_def request_factory)

lemma listing_scope: "scope listing_client = ''customer.''"
  by (simp add: listing_client_def scope_factory)

lemma creating_client_eq: "creating_client = customerFactory (reply_once created_store JNull (JRef 0)) JUndefined"
  by (simp add: creating_client_def)

section \<open>Validation of the arguments\<close>

text \<open>
  C1 (as amended). Every call of \<^verbatim>\<open>get\<close> with a truthy \<^verbatim>\<open>options\<close> that is not a
  plain mapping, every call of \<^verbatim>\<open>create\<close> with a truthy entity that is not a plain
  mapping, every call of \<^verbatim>\<open>update\<close> where \<^verbatim>\<open>id\<close> is not a number or
  \<^verbatim>\<open>modification\<close> is not a plain mapping, and every call of \<^verbatim>\<open>remove\<close> where
  \<^verbatim>\<open>id\<close> is not a number fails during the call: the promise is rejected with the
  TypeError-kind error, that is its only settlement, and no request is made to the
  transport.
\<close>

theorem validation_rejects:
  "(truthy options \<and> \<not> is_plain h options \<longrightarrow>
      attempts (get c h options) = [Reject FastbillTypeError] \<and> sent (get c h options) = [])
   \<and> (truthy entity \<and> \<not> is_plain h entity \<longrightarrow>
      attempts (create c h entity) = [Reject FastbillTypeError] \<and> sent (create c h entity) = [])
   \<and> (\<not> is_number ident \<or> \<not> is_plain h modification \<longrightarrow>
      attempts (update c h ident modification) = [Reject FastbillTypeError]
      \<and> sent (update c h ident modification) = [])
   \<and> (\<not> is_number ident' \<longrightarrow>
      attempts (remove c h ident') = [Reject FastbillTypeError] \<and> sent (remove c h ident') = [])"
  by (simp add: get_def create_def update_def remove_def get_executor_invalid
        create_executor_invalid update_executor_invalid remove_executor_invalid
        new_Promise_thrown)

theorem validation_rejects_witness:
  "truthy (JStr ''x'') \<and> \<not> is_plain [] (JStr ''x'')
   \<and> attempts (get (customerFactory (reply_once [] JNull JUndefined) JUndefined) [] (JStr ''x''))
       = [Reject FastbillTypeError]
   \<and> sent (get (customerFactory (reply_once [] JNull JUndefined) JUndefined) [] (JStr ''x'')) = []
   \<and> truthy (JNum 3) \<and> \<not> is_plain [] (JNum 3)
   \<and> attempts (create (customerFactory (reply_once [] JNull JUndefined) JUndefined) [] (JNum 3))
       = [Reject FastbillTypeError]
   \<and> sent (create (customerFactory (reply_once [] JNull JUndefined) JUndefined) [] (JNum 3)) = []
   \<and> \<not> is_number (JStr ''5'')
   \<and> attempts (update (customerFactory (reply_once [] JNull JUndefined) JUndefined) [] (JStr ''5'') JNull)
       = [Reject FastbillTypeError]
   \<and> sent (update (customerFactory (reply_once [] JNull JUndefined) JUndefined) [] (JStr ''5'') JNull) = []
   \<and> \<not> is_number (JBool True)
   \<and> attempts (remove (customerFactory (reply_once [] JNull JUndefined) JUndefined) [] (JBool True))
       = [Reject FastbillTypeError]
   \<and> sent (remove (customerFactory (reply_once [] JNull JUndefined) JUndefined) [] (JBool True)) = []"
  using validation_rejects [where options = "JStr ''x''" and h = "[]" and entity = "JNum 3"
      and ident = "JStr ''5''" and modification = JNull and ident' = "JBool True"
      and c = "customerFactory (reply_once [] JNull JUndefined) JUndefined"]
  by simp

text \<open>
  C1 as stated fails on a falsy value that is not a plain mapping: \<^verbatim>\<open>get(0)\<close> makes
  the request of \<^verbatim>\<open>get()\<close>, and its promise is fulfilled when the transport answers.
\<close>

theorem falsy_options_pass_validation:
  "\<not> is_plain [] (JNum 0)
   \<and> sent (get listing_client [] (JNum 0)) =
       [([(''service'', JStr ''customer.get''), (''filter'', JUndefined),
          (''limit'', JUndefined), (''offset'', JUndefined)], [empty_object])]
   \<and> attempts (get listing_client [] (JNum 0)) = [Resolve (JRef 1)]
   \<and> promise_state (get listing_client [] (JNum 0)) = Fulfilled (JRef 1)"
  by (simp add: get_def get_executor_falsy new_Promise_def listing_scope listing_request
        reply_once_def get_onResult_def customers_store_def lookup_def promise_state_def)

text \<open>
  C10. A falsy argument (\<^verbatim>\<open>0\<close>, \<^verbatim>\<open>false\<close>, \<^verbatim>\<open>''\<close>, \<^verbatim>\<open>null\<close>, \<^verbatim>\<open>NaN\<close>,
  \<^verbatim>\<open>undefined\<close>) given as \<^verbatim>\<open>options\<close> to \<^verbatim>\<open>get\<close> or as the entity to
  \<^verbatim>\<open>create\<close> raises no TypeError: the whole run is that of the call with the argument
  omitted, the request is made with a new empty mapping in the argument's place, and the
  promise is never rejected with the TypeError-kind error.
\<close>

theorem falsy_argument_defaults:
  assumes "\<not> truthy v"
  shows "get c h v = get c h JUndefined
       \<and> create c h v = create c h JUndefined
       \<and> sent (get c h v) =
           [([(''service'', JStr (scope c @ ''get'')), (''filter'', JUndefined),
              (''limit'', JUndefined), (''offset'', JUndefined)], h @ [empty_object])]
       \<and> sent (create c h v) =
           [([(''service'', JStr (scope c @ ''create'')), (''data'', JRef (length h))],
             h @ [empty_object])]
       \<and> Reject FastbillTypeError \<notin> set (attempts (get c h v))
       \<and> Reject FastbillTypeError \<notin> set (attempts (create c h v))"
  using assms
  by (simp add: get_def create_def get_executor_falsy create_executor_falsy new_Promise_sent
        new_Promise_attempts get_never_rejects_TypeError create_never_rejects_TypeError)

theorem falsy_argument_defaults_witness:
  "\<not> truthy (JNum 0) \<and> \<not> truthy (JBool False) \<and> \<not> truthy (JStr []) \<and> \<not> truthy JNull
   \<and> \<not> truthy JNaN
   \<and> get listing_client [] (JNum 0) = get listing_client [] JUndefined
   \<and> get listing_client [] (JBool False) = get listing_client [] JUndefined
   \<and> get listing_client [] (JStr []) = get listing_client [] JUndefined
   \<and> get listing_client [] JNull = get listing_client [] JUndefined
   \<and> get listing_client [] JNaN = get listing_client [] JUndefined
   \<and> create listing_client [] (JNum 0) = create listing_client [] JUndefined
   \<and> sent (get listing_client [] (JNum 0)) =
       [([(''service'', JStr ''customer.get''), (''filter'', JUndefined),
          (''limit'', JUndefined), (''offset'', JUndefined)], [empty_object])]
   \<and> sent (create listing_client [] (JNum 0)) =
       [([(''service'', JStr ''customer.create''), (''data'', JRef 0)], [empty_object])]
   \<and> Reject FastbillTypeError \<notin> set (attempts (get listing_client [] (JNum 0)))
   \<and> Reject FastbillTypeError \<notin> set (attempts (create listing_client [] (JNum 0)))"
  using falsy_argument_defaults [of "JNum 0" listing_client "[]"]
    falsy_argument_defaults [of "JBool False" listing_client "[]"]
    falsy_argument_defaults [of "JStr []" listing_client "[]"]
    falsy_argument_defaults [of JNull listing_client "[]"]
    falsy_argument_defaults [of JNaN listing_client "[]"]
    falsy_argument_defaults [of JUndefined listing_client "[]"]
  by (simp add: listing_scope)

section \<open>The outcome of the transport\<close>

text \<open>
  C2. For each of the four operations: when the request the operation made is answered by
  the transport invoking the callback as \<^verbatim>\<open>(someError, undefined)\<close>, with
  \<^verbatim>\<open>someError\<close> an error value (a value that the callback's test \<^verbatim>\<open>if (err)\<close> takes
  as an error), the promise is rejected with the InvalidRequestError-kind error whose
  \<^verbatim>\<open>detail\<close> is \<^verbatim>\<open>someError\<close> and whose \<^verbatim>\<open>message\<close> is
  \<^verbatim>\<open>'Invalid Request to Fastbill.'\<close>.
\<close>

theorem transport_error_rejects:
  assumes "truthy someError"
  shows "(sent (get c h options) = [(d, hs)] \<and> request c d hs = [(hc, someError, JUndefined)] \<longrightarrow>
            promise_state (get c h options) =
              Rejected (FastbillInvalidRequestError ''Invalid Request to Fastbill.'' someError))
       \<and> (sent (create c h entity) = [(d, hs)] \<and> request c d hs = [(hc, someError, JUndefined)] \<longrightarrow>
            promise_state (create c h entity) =
              Rejected (FastbillInvalidRequestError ''Invalid Request to Fastbill.'' someError))
       \<and> (sent (update c h ident modification) = [(d, hs)]
            \<and> request c d hs = [(hc, someError, JUndefined)] \<longrightarrow>
            promise_state (update c h ident modification) =
              Rejected (FastbillInvalidRequestError ''Invalid Request to Fastbill.'' someError))
       \<and> (sent (remove c h ident) = [(d, hs)] \<and> request c d hs = [(hc, someError, JUndefined)] \<longrightarrow>
            promise_state (remove c h ident) =
              Rejected (FastbillInvalidRequestError ''Invalid Request to Fastbill.'' someError))"
  using assms
  by (simp add: get_def create_def update_def remove_def new_Promise_answer onResult_error
        promise_state_def)

theorem transport_error_rejects_witness:
  "truthy (JRef 0)
   \<and> sent (get failing_client [] JUndefined) =
       [([(''service'', JStr ''customer.get''), (''filter'', JUndefined),
          (''limit'', JUndefined), (''offset'', JUndefined)], [empty_object])]
   \<and> request failing_client
        [(''service'', JStr ''customer.get''), (''filter'', JUndefined),
         (''limit'', JUndefined), (''offset'', JUndefined)] [empty_object]
       = [(error_store, JRef 0, JUndefined)]
   \<and> promise_state (get failing_client [] JUndefined) =
       Rejected (FastbillInvalidRequestError ''Invalid Request to Fastbill.'' (JRef 0))
   \<and> sent (create failing_client [] JUndefined) =
       [([(''service'', JStr ''customer.create''), (''data'', JRef 0)], [empty_object])]
   \<and> promise_state (create failing_client [] JUndefined) =
       Rejected (FastbillInvalidRequestError ''Invalid Request to Fastbill.'' (JRef 0))
   \<and> sent (update failing_client modification_store (JNum 5) (JRef 0)) =
       [([(''service'', JStr ''customer.update''), (''data'', JRef 0)],
         [\<lparr>cls = PlainObject, props = [(''FIRST_NAME'', JStr ''A''), (''CUSTOMER_ID'', JNum 5)], extensible = True, readonly = []\<rparr>])]
   \<and> promise_state (update failing_client modification_store (JNum 5) (JRef 0)) =
       Rejected (FastbillInvalidRequestError ''Invalid Request to Fastbill.'' (JRef 0))
   \<and> sent (remove failing_client [] (JNum 7)) =
       [([(''service'', JStr ''customer.delete''), (''data'', JRef 0)],
         [\<lparr>cls = PlainObject, props = [(''CUSTOMER_ID'', JNum 7)], extensible = True, readonly = []\<rparr>])]
   \<and> promise_state (remove failing_client [] (JNum 7)) =
       Rejected (FastbillInvalidRequestError ''Invalid Request to Fastbill.'' (JRef 0))"
proof -
  let ?dg = "[(''service'', JStr ''customer.get''), (''filter'', JUndefined),
          (''limit'', JUndefined), (''offset'', JUndefined)]"
  let ?dc = "[(''service'', JStr ''customer.create''), (''data'', JRef 0)]"
  let ?du = "[(''service'', JStr ''customer.update''), (''data'', JRef 0)]"
  let ?hu = "[\<lparr>cls = PlainObject, props = [(''FIRST_NAME'', JStr ''A''), (''CUSTOMER_ID'', JNum 5)], extensible = True, readonly = []\<rparr>]"
  let ?dr = "[(''service'', JStr ''customer.delete''), (''data'', JRef 0)]"
  let ?hr = "[\<lparr>cls = PlainObject, props = [(''CUSTOMER_ID'', JNum 7)], extensible = True, readonly = []\<rparr>]"
  have t: "truthy (JRef 0)" by simp
  have r: "request failing_client d hs = [(error_store, JRef 0, JUndefined)]" for d hs
    by (simp add: failing_request reply_once_def)
  have sg: "sent (get failing_client [] JUndefined) = [(?dg, [empty_object])]"
    by (simp add: get_def get_executor_falsy failing_scope new_Promise_sent)
  have sc: "sent (create failing_client [] JUndefined) = [(?dc, [empty_object])]"
    by (simp add: create_def create_executor_falsy failing_scope new_Promise_sent)
  have su: "sent (update failing_client modification_store (JNum 5) (JRef 0)) = [(?du, ?hu)]"
    by (simp add: update_def update_executor_def mustBe_number mustBe_object lookup_def
          writable_key_def modification_store_def failing_scope new_Promise_sent)
  have sr: "sent (remove failing_client [] (JNum 7)) = [(?dr, ?hr)]"
    by (simp add: remove_def remove_executor_valid failing_scope new_Promise_sent)
  note th = transport_error_rejects [OF t, where c = failing_client and hc = error_store]
  from th [where h = "[]" and options = JUndefined and d = ?dg and hs = "[empty_object]"]
  have pg: "promise_state (get failing_client [] JUndefined) =
       Rejected (FastbillInvalidRequestError ''Invalid Request to Fastbill.'' (JRef 0))"
    using sg r by blast
  from th [where h = "[]" and entity = JUndefined and d = ?dc and hs = "[empty_object]"]
  have pc: "promise_state (create failing_client [] JUndefined) =
       Rejected (FastbillInvalidRequestError ''Invalid Request to Fastbill.'' (JRef 0))"
    using sc r by blast
  from th [where h = modification_store and ident = "JNum 5" and modification = "JRef 0"
      and d = ?du and hs = ?hu]
  have pu: "promise_state (update failing_client modification_store (JNum 5) (JRef 0)) =
       Rejected (FastbillInvalidRequestError ''Invalid Request to Fastbill.'' (JRef 0))"
    using su r by blast
  from th [where h = "[]" and ident = "JNum 7" and d = ?dr and hs = ?hr]
  have pr: "promise_state (remove failing_client [] (JNum 7)) =
       Rejected (FastbillInvalidRequestError ''Invalid Request to Fastbill.'' (JRef 0))"
    using sr r by blast
  from t sg r sc su sr pg pc pu pr show ?thesis by simp
qed

text \<open>
  C3. When the request of \<^verbatim>\<open>get\<close> is answered by the transport invoking the callback as
  \<^verbatim>\<open>(null, resultset)\<close> with a result set (anything that has properties), the promise
  is fulfilled, by its only settlement, with the very value of \<^verbatim>\<open>resultset.CUSTOMERS\<close>
  in the transport's store: for an array that is the same reference, so nothing is
  reordered, filtered or copied.
\<close>

theorem get_resolves_with_customers:
  assumes "sent (get c h options) = [(d, hs)]"
    and "request c d hs = [(hc, JNull, resultset)]"
    and "resultset \<noteq> JUndefined" and "resultset \<noteq> JNull"
  shows "get_prop hc resultset ''CUSTOMERS'' = Inr (field_of hc resultset ''CUSTOMERS'')
       \<and> attempts (get c h options) = [Resolve (field_of hc resultset ''CUSTOMERS'')]
       \<and> promise_state (get c h options) = Fulfilled (field_of hc resultset ''CUSTOMERS'')"
  using assms
  by (simp add: get_def new_Promise_answer get_onResult_def get_prop_defined promise_state_def)

theorem get_resolves_with_customers_witness:
  "sent (get listing_client [] JUndefined) =
       [([(''service'', JStr ''customer.get''), (''filter'', JUndefined),
          (''limit'', JUndefined), (''offset'', JUndefined)], [empty_object])]
   \<and> request listing_client
        [(''service'', JStr ''customer.get''), (''filter'', JUndefined),
         (''limit'', JUndefined), (''offset'', JUndefined)] [empty_object]
       = [(customers_store, JNull, JRef 0)]
   \<and> JRef 0 \<noteq> JUndefined \<and> JRef 0 \<noteq> JNull
   \<and> get_prop customers_store (JRef 0) ''CUSTOMERS'' = Inr (JRef 1)
   \<and> attempts (get listing_client [] JUndefined) = [Resolve (JRef 1)]
   \<and> promise_state (get listing_client [] JUndefined) = Fulfilled (JRef 1)"
proof -
  let ?dg = "[(''service'', JStr ''customer.get''), (''filter'', JUndefined),
          (''limit'', JUndefined), (''offset'', JUndefined)]"
  have sg: "sent (get listing_client [] JUndefined) = [(?dg, [empty_object])]"
    by (simp add: get_def get_executor_falsy listing_scope new_Promise_sent)
  have r: "request listing_client ?dg [empty_object] = [(customers_store, JNull, JRef 0)]"
    by (simp add: listing_request reply_once_def)
  have f: "field_of customers_store (JRef 0) ''CUSTOMERS'' = JRef 1"
    by (simp add: field_of_def customers_store_def lookup_def)
  from get_resolves_with_customers [OF sg r] sg r f show ?thesis by simp
qed

section \<open>The requests\<close>

text \<open>
  C4 (as amended). For a number \<^verbatim>\<open>id\<close> and a plain mapping \<^verbatim>\<open>modification\<close> that
  accepts the assignment of \<^verbatim>\<open>CUSTOMER_ID\<close> (it is extensible, or it has a
  \<^verbatim>\<open>CUSTOMER_ID\<close> that is not read-only), \<^verbatim>\<open>update(id, modification)\<close> writes
  \<^verbatim>\<open>CUSTOMER_ID = id\<close> into the caller's object, at its address and without allocating
  a copy; the request is made in the store that already has the write, and the store in
  which the call returns has it too, so the caller reads \<^verbatim>\<open>id\<close> back through its own
  reference.
\<close>

theorem update_mutates_modification:
  assumes "is_number ident" and "is_plain h modification"
    and "accepts_write h modification ''CUSTOMER_ID''"
  shows "\<exists>a ob. modification = JRef a \<and> lookup h a = Some ob
       \<and> heap_ret (update c h ident modification) =
            h[a := ob\<lparr>props := put_prop (props ob) ''CUSTOMER_ID'' ident\<rparr>]
       \<and> sent (update c h ident modification) =
            [([(''service'', JStr (scope c @ ''update'')), (''data'', modification)],
              h[a := ob\<lparr>props := put_prop (props ob) ''CUSTOMER_ID'' ident\<rparr>])]
       \<and> get_prop (heap_ret (update c h ident modification)) modification ''CUSTOMER_ID'' = Inr ident
       \<and> is_plain (heap_ret (update c h ident modification)) modification
       \<and> length (heap_ret (update c h ident modification)) = length h"
proof -
  from assms(2) obtain a ob where m: "modification = JRef a" and l: "lookup h a = Some ob"
    and p: "cls ob = PlainObject"
    using is_plain_ref by blast
  from assms(3) l have w: "writable_key ob ''CUSTOMER_ID''"
    unfolding m by (rule accepts_write_ref)
  let ?ob = "ob\<lparr>props := put_prop (props ob) ''CUSTOMER_ID'' ident\<rparr>"
  let ?hs = "h[a := ?ob]"
  have r: "update c h ident (JRef a) =
     new_Promise (request c) update_onResult
       (?hs, Inr [(''service'', JStr (scope c @ ''update'')), (''data'', JRef a)])"
    using assms(1) l p w by (rule update_run)
  have l': "lookup ?hs a = Some ?ob" using l by (rule lookup_update_same)
  have hr: "heap_ret (update c h ident (JRef a)) = ?hs"
    by (simp add: r new_Promise_heap)
  have s: "sent (update c h ident (JRef a)) =
      [([(''service'', JStr (scope c @ ''update'')), (''data'', JRef a)], ?hs)]"
    by (simp add: r new_Promise_sent)
  have g: "get_prop ?hs (JRef a) ''CUSTOMER_ID'' = Inr ident"
    by (simp add: l' map_of_put_prop)
  have pl: "is_plain ?hs (JRef a)"
    by (simp add: l' p)
  have len: "length ?hs = length h" by simp
  from l hr s g pl len show ?thesis unfolding m by (intro exI [of _ a] exI [of _ ob]) simp
qed

theorem update_mutates_modification_witness:
  "is_number (JNum 5) \<and> is_plain modification_store (JRef 0)
   \<and> accepts_write modification_store (JRef 0) ''CUSTOMER_ID''
   \<and> get_prop modification_store (JRef 0) ''CUSTOMER_ID'' = Inr JUndefined
   \<and> heap_ret (update failing_client modification_store (JNum 5) (JRef 0)) =
       [\<lparr>cls = PlainObject, props = [(''FIRST_NAME'', JStr ''A''), (''CUSTOMER_ID'', JNum 5)], extensible = True, readonly = []\<rparr>]
   \<and> get_prop (heap_ret (update failing_client modification_store (JNum 5) (JRef 0))) (JRef 0)
        ''CUSTOMER_ID'' = Inr (JNum 5)
   \<and> sent (update failing_client modification_store (JNum 5) (JRef 0)) =
       [([(''service'', JStr ''customer.update''), (''data'', JRef 0)],
         [\<lparr>cls = PlainObject, props = [(''FIRST_NAME'', JStr ''A''), (''CUSTOMER_ID'', JNum 5)], extensible = True, readonly = []\<rparr>])]"
proof -
  have n: "is_number (JNum 5)" by simp
  have p: "is_plain modification_store (JRef 0)"
    by (simp add: modification_store_def lookup_def)
  have w: "accepts_write modification_store (JRef 0) ''CUSTOMER_ID''"
    by (simp add: modification_store_def lookup_def writable_key_def)
  have b: "get_prop modification_store (JRef 0) ''CUSTOMER_ID'' = Inr JUndefined"
    by (simp add: modification_store_def lookup_def)
  from update_mutates_modification [OF n p w, of failing_client]
  obtain a ob where "JRef 0 = JRef a" and l: "lookup modification_store a = Some ob"
    and h: "heap_ret (update failing_client modification_store (JNum 5) (JRef 0)) =
            modification_store[a := ob\<lparr>props := put_prop (props ob) ''CUSTOMER_ID'' (JNum 5)\<rparr>]"
    and s: "sent (update failing_client modification_store (JNum 5) (JRef 0)) =
            [([(''service'', JStr (scope failing_client @ ''update'')), (''data'', JRef 0)],
              modification_store[a := ob\<lparr>props := put_prop (props ob) ''CUSTOMER_ID'' (JNum 5)\<rparr>])]"
    and g: "get_prop (heap_ret (update failing_client modification_store (JNum 5) (JRef 0)))
              (JRef 0) ''CUSTOMER_ID'' = Inr (JNum 5)"
    by blast
  then have a: "a = 0" by simp
  with l have ob: "ob = \<lparr>cls = PlainObject, props = [(''FIRST_NAME'', JStr ''A'')], extensible = True, readonly = []\<rparr>"
    by (simp add: modification_store_def lookup_def)
  have st: "modification_store[a := ob\<lparr>props := put_prop (props ob) ''CUSTOMER_ID'' (JNum 5)\<rparr>]
      = [\<lparr>cls = PlainObject, props = [(''FIRST_NAME'', JStr ''A''), (''CUSTOMER_ID'', JNum 5)], extensible = True, readonly = []\<rparr>]"
    by (simp add: a ob modification_store_def)
  from n p w b h s g show ?thesis by (simp add: st failing_scope)
qed

text \<open>
  C4 as stated fails on a plain mapping that does not accept the write:
  \<^verbatim>\<open>update(5, Object.freeze({FIRST_NAME: "A"}))\<close> passes both type checks, the
  assignment throws, and the store in which the call returns is the caller's store
  unchanged: the modification has no \<^verbatim>\<open>CUSTOMER_ID\<close>.
\<close>

theorem frozen_modification_not_mutated:
  "is_number (JNum 5) \<and> is_plain frozen_store (JRef 0)
   \<and> heap_ret (update failing_client frozen_store (JNum 5) (JRef 0)) = frozen_store
   \<and> get_prop (heap_ret (update failing_client frozen_store (JNum 5) (JRef 0))) (JRef 0)
        ''CUSTOMER_ID'' = Inr JUndefined"
  by (simp add: update_def update_executor_def mustBe_number mustBe_object lookup_def
        writable_key_def frozen_store_def new_Promise_thrown)

text \<open>
  C5 (as amended). For a number \<^verbatim>\<open>id\<close> and a plain mapping \<^verbatim>\<open>modification\<close> that
  accepts the assignment of \<^verbatim>\<open>CUSTOMER_ID\<close>, \<^verbatim>\<open>update(id, modification)\<close> makes
  exactly one request; its \<^verbatim>\<open>service\<close> is \<^verbatim>\<open>"customer.update"\<close> and its
  \<^verbatim>\<open>data\<close> is the modification, which at that moment has \<^verbatim>\<open>CUSTOMER_ID = id\<close> and
  every other field as the caller gave it. When the transport answers once, the promise
  is fulfilled with \<^verbatim>\<open>true\<close> on success and rejected with the InvalidRequestError-kind
  error on an error.
\<close>

theorem update_sends_and_settles:
  assumes "is_number ident" and "is_plain h modification"
    and "accepts_write h modification ''CUSTOMER_ID''"
  shows "\<exists>hs. sent (update (customerFactory tr creds) h ident modification) =
            [([(''service'', JStr ''customer.update''), (''data'', modification)], hs)]
        \<and> field_of hs modification ''CUSTOMER_ID'' = ident
        \<and> (\<forall>k. k \<noteq> ''CUSTOMER_ID'' \<longrightarrow> field_of hs modification k = field_of h modification k)
        \<and> (\<forall>hc err resultset.
              tr [(''service'', JStr ''customer.update''), (''data'', modification)] hs
                = [(hc, err, resultset)] \<longrightarrow>
              promise_state (update (customerFactory tr creds) h ident modification) =
                (if truthy err
                 then Rejected (FastbillInvalidRequestError ''Invalid Request to Fastbill.'' err)
                 else Fulfilled (JBool True)))"
proof -
  let ?c = "customerFactory tr creds"
  from assms(2) obtain a ob where m: "modification = JRef a" and l: "lookup h a = Some ob"
    and p: "cls ob = PlainObject"
    using is_plain_ref by blast
  from assms(3) l have w: "writable_key ob ''CUSTOMER_ID''"
    unfolding m by (rule accepts_write_ref)
  let ?ob = "ob\<lparr>props := put_prop (props ob) ''CUSTOMER_ID'' ident\<rparr>"
  let ?hs = "h[a := ?ob]"
  let ?d = "[(''service'', JStr ''customer.update''), (''data'', JRef a)]"
  have r: "update ?c h ident (JRef a) = new_Promise tr update_onResult (?hs, Inr ?d)"
    using update_run [OF assms(1) l p w, of ?c] by (simp add: scope_factory request_factory)
  have l': "lookup ?hs a = Some ?ob" using l by (rule lookup_update_same)
  have s: "sent (update ?c h ident (JRef a)) = [(?d, ?hs)]"
    by (simp add: r new_Promise_sent)
  have f1: "field_of ?hs (JRef a) ''CUSTOMER_ID'' = ident"
    by (simp add: field_of_def l' map_of_put_prop)
  have f2: "\<forall>k. k \<noteq> ''CUSTOMER_ID'' \<longrightarrow> field_of ?hs (JRef a) k = field_of h (JRef a) k"
    by (simp add: field_of_def l l' map_of_put_prop)
  have f3: "\<forall>hc err resultset. tr ?d ?hs = [(hc, err, resultset)] \<longrightarrow>
      promise_state (update ?c h ident (JRef a)) =
        (if truthy err
         then Rejected (FastbillInvalidRequestError ''Invalid Request to Fastbill.'' err)
         else Fulfilled (JBool True))"
    by (simp add: r new_Promise_once update_onResult_def promise_state_def)
  from s f1 f2 f3 show ?thesis unfolding m by blast
qed

theorem update_sends_and_settles_witness:
  "is_number (JNum 5) \<and> is_plain modification_store (JRef 0)
   \<and> accepts_write modification_store (JRef 0) ''CUSTOMER_ID''
   \<and> sent (update creating_client modification_store (JNum 5) (JRef 0)) =
       [([(''service'', JStr ''customer.update''), (''data'', JRef 0)],
         [\<lparr>cls = PlainObject, props = [(''FIRST_NAME'', JStr ''A''), (''CUSTOMER_ID'', JNum 5)], extensible = True, readonly = []\<rparr>])]
   \<and> field_of [\<lparr>cls = PlainObject, props = [(''FIRST_NAME'', JStr ''A''), (''CUSTOMER_ID'', JNum 5)], extensible = True, readonly = []\<rparr>]
        (JRef 0) ''FIRST_NAME'' = JStr ''A''
   \<and> field_of [\<lparr>cls = PlainObject, props = [(''FIRST_NAME'', JStr ''A''), (''CUSTOMER_ID'', JNum 5)], extensible = True, readonly = []\<rparr>]
        (JRef 0) ''CUSTOMER_ID'' = JNum 5
   \<and> promise_state (update creating_client modification_store (JNum 5) (JRef 0)) = Fulfilled (JBool True)
   \<and> promise_state (update failing_client modification_store (JNum 5) (JRef 0)) =
       Rejected (FastbillInvalidRequestError ''Invalid Request to Fastbill.'' (JRef 0))"
proof -
  let ?du = "[(''service'', JStr ''customer.update''), (''data'', JRef 0)]"
  let ?hu = "[\<lparr>cls = PlainObject, props = [(''FIRST_NAME'', JStr ''A''), (''CUSTOMER_ID'', JNum 5)], extensible = True, readonly = []\<rparr>]"
  have n: "is_number (JNum 5)" by simp
  have p: "is_plain modification_store (JRef 0)"
    by (simp add: modification_store_def lookup_def)
  have w: "accepts_write modification_store (JRef 0) ''CUSTOMER_ID''"
    by (simp add: modification_store_def lookup_def writable_key_def)
  have f: "field_of modification_store (JRef 0) ''FIRST_NAME'' = JStr ''A''"
    by (simp add: field_of_def modification_store_def lookup_def)
  have su: "sent (update creating_client modification_store (JNum 5) (JRef 0)) = [(?du, ?hu)]"
    by (simp add: update_def update_executor_def mustBe_number mustBe_object lookup_def
          writable_key_def modification_store_def creating_client_def scope_factory
          new_Promise_sent)
  from update_sends_and_settles [OF n p w, of "reply_once created_store JNull (JRef 0)" JUndefined]
  obtain hs where s: "sent (update creating_client modification_store (JNum 5) (JRef 0)) = [(?du, hs)]"
    and i: "field_of hs (JRef 0) ''CUSTOMER_ID'' = JNum 5"
    and k: "\<forall>k. k \<noteq> ''CUSTOMER_ID'' \<longrightarrow> field_of hs (JRef 0) k = field_of modification_store (JRef 0) k"
    and a: "\<forall>hc err resultset. reply_once created_store JNull (JRef 0) ?du hs = [(hc, err, resultset)] \<longrightarrow>
              promise_state (update creating_client modification_store (JNum 5) (JRef 0)) =
                (if truthy err
                 then Rejected (FastbillInvalidRequestError ''Invalid Request to Fastbill.'' err)
                 else Fulfilled (JBool True))"
    unfolding creating_client_eq by blast
  from s su have hs: "hs = ?hu" by simp
  from k have "field_of hs (JRef 0) ''FIRST_NAME'' = field_of modification_store (JRef 0) ''FIRST_NAME''"
    by simp
  with f hs have f': "field_of ?hu (JRef 0) ''FIRST_NAME'' = JStr ''A''" by simp
  from i hs have i': "field_of ?hu (JRef 0) ''CUSTOMER_ID'' = JNum 5" by simp
  have "reply_once created_store JNull (JRef 0) ?du hs = [(created_store, JNull, JRef 0)]"
    by (simp add: reply_once_def)
  with a have ok: "promise_state (update creating_client modification_store (JNum 5) (JRef 0)) =
      Fulfilled (JBool True)"
    by fastforce
  from update_sends_and_settles [OF n p w, of "reply_once error_store (JRef 0) JUndefined" JUndefined]
  obtain hs' where
    s': "sent (update failing_client modification_store (JNum 5) (JRef 0)) = [(?du, hs')]"
    and a': "\<forall>hc err resultset. reply_once error_store (JRef 0) JUndefined ?du hs' = [(hc, err, resultset)] \<longrightarrow>
              promise_state (update failing_client modification_store (JNum 5) (JRef 0)) =
                (if truthy err
                 then Rejected (FastbillInvalidRequestError ''Invalid Request to Fastbill.'' err)
                 else Fulfilled (JBool True))"
    unfolding failing_client_def by blast
  have "reply_once error_store (JRef 0) JUndefined ?du hs' = [(error_store, JRef 0, JUndefined)]"
    by (simp add: reply_once_def)
  with a' have bad: "promise_state (update failing_client modification_store (JNum 5) (JRef 0)) =
      Rejected (FastbillInvalidRequestError ''Invalid Request to Fastbill.'' (JRef 0))"
    by fastforce
  from n p w su f' i' ok bad show ?thesis by simp
qed

text \<open>
  C5 as stated fails on a plain mapping that does not accept the write:
  \<^verbatim>\<open>update(5, Object.freeze({FIRST_NAME: "A"}))\<close> makes no request, and its promise is
  rejected at once with the TypeError of the language, whatever the transport would
  have answered.
\<close>

theorem frozen_modification_not_sent:
  "is_number (JNum 5) \<and> is_plain frozen_store (JRef 0)
   \<and> sent (update creating_client frozen_store (JNum 5) (JRef 0)) = []
   \<and> attempts (update creating_client frozen_store (JNum 5) (JRef 0)) = [Reject NativeTypeError]
   \<and> promise_state (update creating_client frozen_store (JNum 5) (JRef 0)) =
       Rejected NativeTypeError"
  by (simp add: update_def update_executor_def mustBe_number mustBe_object lookup_def
        writable_key_def frozen_store_def new_Promise_thrown promise_state_def)

text \<open>
  C6. For a number \<^verbatim>\<open>id\<close>, \<^verbatim>\<open>remove(id)\<close> makes exactly one request; its
  \<^verbatim>\<open>service\<close> is \<^verbatim>\<open>"customer.delete"\<close> and its \<^verbatim>\<open>data\<close> is a new object whose
  properties are exactly \<^verbatim>\<open>{CUSTOMER_ID: id}\<close>. When the transport answers once, the
  promise is fulfilled with \<^verbatim>\<open>true\<close> on success and rejected with the
  InvalidRequestError-kind error on an error.
\<close>

theorem remove_sends_and_settles:
  assumes "is_number ident"
  shows "sent (remove (customerFactory tr creds) h ident) =
            [([(''service'', JStr ''customer.delete''), (''data'', JRef (length h))],
              h @ [\<lparr>cls = PlainObject, props = [(''CUSTOMER_ID'', ident)], extensible = True, readonly = []\<rparr>])]
        \<and> (\<forall>hc err resultset.
              tr [(''service'', JStr ''customer.delete''), (''data'', JRef (length h))]
                 (h @ [\<lparr>cls = PlainObject, props = [(''CUSTOMER_ID'', ident)], extensible = True, readonly = []\<rparr>])
                = [(hc, err, resultset)] \<longrightarrow>
              promise_state (remove (customerFactory tr creds) h ident) =
                (if truthy err
                 then Rejected (FastbillInvalidRequestError ''Invalid Request to Fastbill.'' err)
                 else Fulfilled (JBool True)))"
  using assms
  by (simp add: remove_def remove_executor_valid scope_factory request_factory
        new_Promise_sent new_Promise_once remove_onResult_def promise_state_def)

theorem remove_sends_and_settles_witness:
  "is_number (JNum 7)
   \<and> sent (remove creating_client [] (JNum 7)) =
       [([(''service'', JStr ''customer.delete''), (''data'', JRef 0)],
         [\<lparr>cls = PlainObject, props = [(''CUSTOMER_ID'', JNum 7)], extensible = True, readonly = []\<rparr>])]
   \<and> promise_state (remove creating_client [] (JNum 7)) = Fulfilled (JBool True)
   \<and> promise_state (remove failing_client [] (JNum 7)) =
       Rejected (FastbillInvalidRequestError ''Invalid Request to Fastbill.'' (JRef 0))"
proof -
  have n: "is_number (JNum 7)" by simp
  from remove_sends_and_settles [OF n, of "reply_once created_store JNull (JRef 0)" JUndefined "[]"]
  have ok: "sent (remove creating_client [] (JNum 7)) =
       [([(''service'', JStr ''customer.delete''), (''data'', JRef 0)],
         [\<lparr>cls = PlainObject, props = [(''CUSTOMER_ID'', JNum 7)], extensible = True, readonly = []\<rparr>])]
     \<and> promise_state (remove creating_client [] (JNum 7)) = Fulfilled (JBool True)"
    by (simp add: creating_client_def reply_once_def)
  from remove_sends_and_settles [OF n, of "reply_once error_store (JRef 0) JUndefined" JUndefined "[]"]
  have bad: "promise_state (remove failing_client [] (JNum 7)) =
       Rejected (FastbillInvalidRequestError ''Invalid Request to Fastbill.'' (JRef 0))"
    by (simp add: failing_client_def reply_once_def)
  from n ok bad show ?thesis by simp
qed

text \<open>
  C7. \<^verbatim>\<open>create\<close> without an entity makes exactly one request, to
  \<^verbatim>\<open>"customer.create"\<close>, whose \<^verbatim>\<open>data\<close> is a new empty mapping; with a plain mapping
  it makes exactly one request, to \<^verbatim>\<open>"customer.create"\<close>, whose \<^verbatim>\<open>data\<close> is that
  mapping. When the transport answers the request once with an error, the promise is
  rejected with the InvalidRequestError-kind error; when it answers with no error and a
  result set, the promise is fulfilled with the result set's \<^verbatim>\<open>CUSTOMER_ID\<close>.
\<close>

theorem create_sends_and_settles:
  "sent (create (customerFactory tr creds) h JUndefined) =
      [([(''service'', JStr ''customer.create''), (''data'', JRef (length h))], h @ [empty_object])]
   \<and> (is_plain h entity \<longrightarrow>
        sent (create (customerFactory tr creds) h entity) =
          [([(''service'', JStr ''customer.create''), (''data'', entity)], h)])
   \<and> (sent (create (customerFactory tr creds) h entity) = [(d, hs)]
        \<and> tr d hs = [(hc, err, resultset)] \<and> truthy err \<longrightarrow>
        promise_state (create (customerFactory tr creds) h entity) =
          Rejected (FastbillInvalidRequestError ''Invalid Request to Fastbill.'' err))
   \<and> (sent (create (customerFactory tr creds) h entity) = [(d, hs)]
        \<and> tr d hs = [(hc, err, resultset)] \<and> \<not> truthy err
        \<and> resultset \<noteq> JUndefined \<and> resultset \<noteq> JNull \<longrightarrow>
        get_prop hc resultset ''CUSTOMER_ID'' = Inr (field_of hc resultset ''CUSTOMER_ID'')
        \<and> promise_state (create (customerFactory tr creds) h entity) =
          Fulfilled (field_of hc resultset ''CUSTOMER_ID''))"
proof (intro conjI impI; (elim conjE)?)
  show "sent (create (customerFactory tr creds) h JUndefined) =
      [([(''service'', JStr ''customer.create''), (''data'', JRef (length h))], h @ [empty_object])]"
    by (simp add: create_def create_executor_falsy scope_factory new_Promise_sent)
next
  assume "is_plain h entity"
  then show "sent (create (customerFactory tr creds) h entity) =
          [([(''service'', JStr ''customer.create''), (''data'', entity)], h)]"
    by (simp add: create_def create_executor_plain scope_factory new_Promise_sent)
next
  assume "sent (create (customerFactory tr creds) h entity) = [(d, hs)]"
    "tr d hs = [(hc, err, resultset)]" "truthy err"
  then show "promise_state (create (customerFactory tr creds) h entity) =
          Rejected (FastbillInvalidRequestError ''Invalid Request to Fastbill.'' err)"
    by (simp add: create_def request_factory new_Promise_answer onResult_error promise_state_def)
next
  assume a: "resultset \<noteq> JUndefined" "resultset \<noteq> JNull"
  then show "get_prop hc resultset ''CUSTOMER_ID'' = Inr (field_of hc resultset ''CUSTOMER_ID'')"
    by (rule get_prop_defined)
  assume "sent (create (customerFactory tr creds) h entity) = [(d, hs)]"
    "tr d hs = [(hc, err, resultset)]" "\<not> truthy err"
  with a show "promise_state (create (customerFactory tr creds) h entity) =
          Fulfilled (field_of hc resultset ''CUSTOMER_ID'')"
    by (simp add: create_def request_factory new_Promise_answer create_onResult_def
          get_prop_defined promise_state_def)
qed

theorem create_sends_and_settles_witness:
  "sent (create creating_client entity_store JUndefined) =
      [([(''service'', JStr ''customer.create''), (''data'', JRef 1)],
        entity_store @ [empty_object])]
   \<and> is_plain entity_store (JRef 0)
   \<and> sent (create creating_client entity_store (JRef 0)) =
      [([(''service'', JStr ''customer.create''), (''data'', JRef 0)], entity_store)]
   \<and> \<not> truthy JNull \<and> JRef 0 \<noteq> JUndefined \<and> JRef 0 \<noteq> JNull
   \<and> get_prop created_store (JRef 0) ''CUSTOMER_ID'' = Inr (JNum 42)
   \<and> promise_state (create creating_client entity_store (JRef 0)) = Fulfilled (JNum 42)
   \<and> truthy (JRef 0)
   \<and> sent (create failing_client entity_store (JRef 0)) =
      [([(''service'', JStr ''customer.create''), (''data'', JRef 0)], entity_store)]
   \<and> promise_state (create failing_client entity_store (JRef 0)) =
       Rejected (FastbillInvalidRequestError ''Invalid Request to Fastbill.'' (JRef 0))"
proof -
  let ?d = "[(''service'', JStr ''customer.create''), (''data'', JRef 0)]"
  have p: "is_plain entity_store (JRef 0)"
    by (simp add: entity_store_def lookup_def)
  have l: "length entity_store = 1" by (simp add: entity_store_def)
  have f: "field_of created_store (JRef 0) ''CUSTOMER_ID'' = JNum 42"
    by (simp add: field_of_def created_store_def lookup_def)
  note ok = create_sends_and_settles [where tr = "reply_once created_store JNull (JRef 0)"
      and creds = JUndefined and h = entity_store and entity = "JRef 0" and d = ?d
      and hs = entity_store and hc = created_store and err = JNull and resultset = "JRef 0"]
  note bad = create_sends_and_settles [where tr = "reply_once error_store (JRef 0) JUndefined"
      and creds = JUndefined and h = entity_store and entity = "JRef 0" and d = ?d
      and hs = entity_store and hc = error_store and err = "JRef 0" and resultset = JUndefined]
  from ok p l f have 1: "sent (create creating_client entity_store JUndefined) =
      [([(''service'', JStr ''customer.create''), (''data'', JRef 1)],
        entity_store @ [empty_object])]"
    and 2: "sent (create creating_client entity_store (JRef 0)) = [(?d, entity_store)]"
    and 3: "get_prop created_store (JRef 0) ''CUSTOMER_ID'' = Inr (JNum 42)"
    and 4: "promise_state (create creating_client entity_store (JRef 0)) = Fulfilled (JNum 42)"
    by (simp_all add: creating_client_def reply_once_def)
  from bad p have 5: "sent (create failing_client entity_store (JRef 0)) = [(?d, entity_store)]"
    and 6: "promise_state (create failing_client entity_store (JRef 0)) =
       Rejected (FastbillInvalidRequestError ''Invalid Request to Fastbill.'' (JRef 0))"
    by (simp_all add: failing_client_def reply_once_def)
  from p 1 2 3 4 5 6 show ?thesis by simp
qed

text \<open>
  C8. \<^verbatim>\<open>get\<close> with \<^verbatim>\<open>options\<close> omitted or a plain mapping makes exactly one
  request; its \<^verbatim>\<open>service\<close> is \<^verbatim>\<open>"customer.get"\<close> and its \<^verbatim>\<open>filter\<close>,
  \<^verbatim>\<open>limit\<close> and \<^verbatim>\<open>offset\<close> are the values of \<^verbatim>\<open>options.filter\<close>,
  \<^verbatim>\<open>options.limit\<close> and \<^verbatim>\<open>options.offset\<close> as read (\<^verbatim>\<open>undefined\<close> for each when
  the options are omitted).
\<close>

theorem get_forwards_options:
  "sent (get (customerFactory tr creds) h JUndefined) =
      [([(''service'', JStr ''customer.get''), (''filter'', JUndefined),
         (''limit'', JUndefined), (''offset'', JUndefined)], h @ [empty_object])]
   \<and> (is_plain h options \<longrightarrow>
        get_prop h options ''filter'' = Inr (field_of h options ''filter'')
        \<and> get_prop h options ''limit'' = Inr (field_of h options ''limit'')
        \<and> get_prop h options ''offset'' = Inr (field_of h options ''offset'')
        \<and> sent (get (customerFactory tr creds) h options) =
          [([(''service'', JStr ''customer.get''), (''filter'', field_of h options ''filter''),
             (''limit'', field_of h options ''limit''),
             (''offset'', field_of h options ''offset'')], h)])"
  by (simp add: get_def get_executor_falsy get_executor_plain scope_factory new_Promise_sent
        get_prop_field)

theorem get_forwards_options_witness:
  "sent (get listing_client options_store JUndefined) =
      [([(''service'', JStr ''customer.get''), (''filter'', JUndefined),
         (''limit'', JUndefined), (''offset'', JUndefined)], options_store @ [empty_object])]
   \<and> is_plain options_store (JRef 0)
   \<and> get_prop options_store (JRef 0) ''filter'' = Inr (JRef 1)
   \<and> get_prop options_store (JRef 0) ''limit'' = Inr (JNum 10)
   \<and> get_prop options_store (JRef 0) ''offset'' = Inr JUndefined
   \<and> sent (get listing_client options_store (JRef 0)) =
      [([(''service'', JStr ''customer.get''), (''filter'', JRef 1),
         (''limit'', JNum 10), (''offset'', JUndefined)], options_store)]"
proof -
  have p: "is_plain options_store (JRef 0)"
    by (simp add: options_store_def lookup_def)
  have f: "field_of options_store (JRef 0) ''filter'' = JRef 1"
    "field_of options_store (JRef 0) ''limit'' = JNum 10"
    "field_of options_store (JRef 0) ''offset'' = JUndefined"
    by (simp_all add: field_of_def options_store_def lookup_def)
  from get_forwards_options [of "reply_once customers_store JNull (JRef 0)" JUndefined
      options_store "JRef 0"] p f
  show ?thesis by (simp add: listing_client_def)
qed

section \<open>Single settlement\<close>

text \<open>
  C9 (as amended). When the transport invokes the callback exactly once for every
  request, an invocation of \<^verbatim>\<open>update\<close> or of \<^verbatim>\<open>remove\<close> calls \<^verbatim>\<open>resolve\<close> or
  \<^verbatim>\<open>reject\<close> exactly once, whatever its arguments (also those that fail validation);
  so does an invocation of \<^verbatim>\<open>get\<close> or of \<^verbatim>\<open>create\<close> when in addition the callback's
  arguments are those of the transport's contract (an error, or else a result set that is
  neither \<^verbatim>\<open>undefined\<close> nor \<^verbatim>\<open>null\<close>).
\<close>

theorem settles_exactly_once:
  assumes "invokes_once (request c)"
  shows "length (attempts (update c h ident modification)) = 1
       \<and> length (attempts (remove c h ident)) = 1
       \<and> (meets_contract (request c) \<longrightarrow>
            length (attempts (get c h options)) = 1
            \<and> length (attempts (create c h entity)) = 1)"
proof (intro conjI impI)
  show "length (attempts (update c h ident modification)) = 1"
    unfolding update_def using assms
    by (rule new_Promise_settles_once) (simp add: update_onResult_def)
  show "length (attempts (remove c h ident)) = 1"
    unfolding remove_def using assms
    by (rule new_Promise_settles_once) (simp add: remove_onResult_def)
next
  assume mc: "meets_contract (request c)"
  have ok: "truthy err \<or> (rs \<noteq> JUndefined \<and> rs \<noteq> JNull)"
    if "(hc, err, rs) \<in> set (request c d h')" for d h' hc err rs
    using mc that unfolding meets_contract_def by blast
  show "length (attempts (get c h options)) = 1"
    unfolding get_def using assms
  proof (rule new_Promise_settles_once)
    fix d h' hc err rs
    assume "(hc, err, rs) \<in> set (request c d h')"
    then have "truthy err \<or> (rs \<noteq> JUndefined \<and> rs \<noteq> JNull)" by (rule ok)
    then show "\<exists>s. get_onResult hc err rs = Inr s"
      by (auto simp: get_onResult_def get_prop_defined)
  qed
  show "length (attempts (create c h entity)) = 1"
    unfolding create_def using assms
  proof (rule new_Promise_settles_once)
    fix d h' hc err rs
    assume "(hc, err, rs) \<in> set (request c d h')"
    then have "truthy err \<or> (rs \<noteq> JUndefined \<and> rs \<noteq> JNull)" by (rule ok)
    then show "\<exists>s. create_onResult hc err rs = Inr s"
      by (auto simp: create_onResult_def get_prop_defined)
  qed
qed

theorem settles_exactly_once_witness:
  "invokes_once (request creating_client) \<and> meets_contract (request creating_client)
   \<and> length (attempts (update creating_client modification_store (JNum 5) (JRef 0))) = 1
   \<and> length (attempts (remove creating_client modification_store (JNum 5))) = 1
   \<and> length (attempts (get creating_client modification_store (JRef 0))) = 1
   \<and> length (attempts (create creating_client modification_store (JNum 3))) = 1"
proof -
  have r: "request creating_client = reply_once created_store JNull (JRef 0)"
    by (simp add: creating_client_def request_factory)
  have i: "invokes_once (request creating_client)"
    by (simp add: r invokes_once_def reply_once_def)
  have m: "meets_contract (request creating_client)"
    by (simp add: r meets_contract_def reply_once_def)
  from settles_exactly_once [OF i, where h = modification_store and ident = "JNum 5"
      and modification = "JRef 0" and options = "JRef 0" and entity = "JNum 3"] i m
  show ?thesis by simp
qed

text \<open>
  C9 as stated fails for \<^verbatim>\<open>get\<close>: a transport that invokes the callback exactly once,
  as \<^verbatim>\<open>(null, undefined)\<close>, makes \<^verbatim>\<open>resultset.CUSTOMERS\<close> throw inside the callback,
  before \<^verbatim>\<open>resolve\<close> is reached; the promise stays pending.
\<close>

theorem contract_breach_never_settles:
  "invokes_once (request silent_client)
   \<and> sent (get silent_client [] JUndefined) =
       [([(''service'', JStr ''customer.get''), (''filter'', JUndefined),
          (''limit'', JUndefined), (''offset'', JUndefined)], [empty_object])]
   \<and> request silent_client
        [(''service'', JStr ''customer.get''), (''filter'', JUndefined),
         (''limit'', JUndefined), (''offset'', JUndefined)] [empty_object]
       = [([], JNull, JUndefined)]
   \<and> attempts (get silent_client [] JUndefined) = []
   \<and> promise_state (get silent_client [] JUndefined) = Pending
   \<and> uncaught (get silent_client [] JUndefined) = [NativeTypeError]"
  by (simp add: silent_client_def invokes_once_def reply_once_def request_factory scope_factory
        get_def get_executor_falsy new_Promise_def get_onResult_def promise_state_def)

end
